theory Spec2Isabelle
  imports Complex_Main "HOL-Library.Word"
begin

section \<open>The renderer bridge: data\<close>

text \<open>
  The renderer translates the draw data of the UI toolkit (Dear ImGui) into calls on the
  host engine's tessellator, and keeps the font atlas texture the draw data refers to.

  The C++ type \<open>float\<close> is kept abstract: it is the type variable \<open>'f\<close>, of which only the
  operations the code applies are required (\<open>/\<close>, \<open>+\<close>, the literals \<open>0.0f\<close> and \<open>1.0f\<close>).
  No law of arithmetic is assumed of them. The texture handle \<open>mce::TexturePtr\<close> is the
  opaque type variable \<open>'t\<close>.
\<close>

text \<open>\<open>ImVec2\<close>, \<open>Vec2\<close> and \<open>glm::vec2\<close>: a pair of floats with members \<open>x\<close> and \<open>y\<close>.\<close>

datatype 'f vec2 = Vec2 (vec2_x: 'f) (vec2_y: 'f)

text \<open>\<open>glm::vec3\<close> and \<open>glm::vec4\<close>.\<close>

datatype 'f vec3 = Vec3 (vec3_x: 'f) (vec3_y: 'f) (vec3_z: 'f)

datatype 'f vec4 = Vec4 (vec4_x: 'f) (vec4_y: 'f) (vec4_z: 'f) (vec4_w: 'f)

type_synonym ImU32 = "32 word"

text \<open>\<open>ImDrawIdx\<close> is \<open>unsigned short\<close>.\<close>

type_synonym ImDrawIdx = "16 word"

text \<open>\<open>ImDrawFlags\<close> is \<open>int\<close>.\<close>

type_synonym ImDrawFlags = int

record 'f ImDrawVert =
  pos :: "'f vec2"
  uv :: "'f vec2"
  col :: ImU32

text \<open>
  Of \<open>ImDrawCmd\<close> the renderer reads the member \<open>ElemCount\<close> (an \<open>unsigned int\<close>) and
  no other.
\<close>

record ImDrawCmd =
  ElemCount :: "32 word"

text \<open>
  \<open>ImDrawList\<close>: the three \<open>ImVector\<close>s are lists; \<open>CmdBuffer.Size\<close> is the length of
  \<open>CmdBuffer\<close>. \<open>VtxBuffer.Data\<close> and \<open>IdxBuffer.Data\<close> are read through raw pointers.
\<close>

record 'f ImDrawList =
  CmdBuffer :: "ImDrawCmd list"
  VtxBuffer :: "'f ImDrawVert list"
  IdxBuffer :: "ImDrawIdx list"

record 'f ImDrawData =
  CmdListsCount :: int
  CmdLists :: "'f ImDrawList list"

text \<open>The font atlas as \<open>io.Fonts->GetTexDataAsRGBA32\<close> hands it out.\<close>

record ImFontAtlas =
  TexPixelsRGBA32 :: "8 word list"
  TexWidth :: int
  TexHeight :: int
  TexBytesPerPixel :: int

text \<open>
  \<open>io.Fonts->TexID\<close> is a \<open>void*\<close>; the only value the renderer stores there is the
  address of its static \<open>texturePtr\<close>.
\<close>

datatype ImTextureID = NullTexID | AddrOf_texturePtr

text \<open>
  \<open>cg::ImageBuffer\<close>: the blob (pixel pointer and byte count) with its
  \<open>cg::ImageDescription\<close>. Format, colour space, image type and array size are the
  constants \<open>R8G8B8A8_UNORM_SRGB\<close>, \<open>sRGB\<close>, \<open>Texture2D\<close> and \<open>1\<close>.
\<close>

datatype TextureFormat = R8G8B8A8_UNORM_SRGB
datatype ColorSpace = sRGB
datatype ImageType = Texture2D

record ImageBuffer =
  blob_data :: "8 word list"
  blob_size :: int
  desc_width :: int
  desc_height :: int
  desc_format :: TextureFormat
  desc_colorSpace :: ColorSpace
  desc_imageType :: ImageType
  desc_arraySize :: int

datatype PrimitiveMode = TriangleList

text \<open>
  Every call the renderer makes on the host engine or on the font atlas, in the order it
  is made. The log of these calls is the observable behaviour of the renderer.
\<close>

datatype ('f, 't) host_call =
    GetTexDataAsRGBA32
  | UploadTexture string ImageBuffer
  | GetTexture string bool
  | Tess_begin PrimitiveMode int
  | Tess_color ImU32
  | Tess_vertexUV 'f 'f 'f 'f 'f
  | CreateMaterial string
  | RenderMeshImmediately string 't

text \<open>
  What the renderer reads from \<open>MinecraftUIRenderContext\<close>: the screen size and the GUI
  scale of the client instance's GUI data, and the answer of \<open>getTexture\<close>.
\<close>

record ('f, 't) MinecraftUIRenderContext =
  getScreenSize :: "'f vec2"
  getGuiScale :: 'f
  getTexture :: "string \<Rightarrow> bool \<Rightarrow> 't"

text \<open>
  Primitives appended to \<open>ImGui::GetBackgroundDrawList()\<close>:
  \<open>AddRect p_min p_max col rounding flags thickness\<close> and
  \<open>AddRectFilled p_min p_max col rounding flags\<close>.
\<close>

datatype 'f draw_prim =
    AddRect "'f vec2" "'f vec2" ImU32 'f ImDrawFlags 'f
  | AddRectFilled "'f vec2" "'f vec2" ImU32 'f ImDrawFlags

text \<open>
  The state the renderer works on: its member \<open>textures_unloaded\<close>, its static
  \<open>texturePtr\<close>, the parts of \<open>ImGui::GetIO()\<close> it touches, the background draw list,
  and the log of host calls.
\<close>

record ('f, 't) renderer =
  textures_unloaded :: bool
  texturePtr :: 't
  io_DisplaySize :: "'f vec2"
  io_Fonts :: ImFontAtlas
  io_Fonts_TexID :: ImTextureID
  background :: "'f draw_prim list"
  host :: "('f, 't) host_call list"

text \<open>
  Reading outside a buffer is undefined behaviour in C++; the model stops with a fault.
\<close>

datatype fault = OutOfBounds

section \<open>The renderer bridge: operations\<close>

definition set_textures_unloaded :: "('f, 't) renderer \<Rightarrow> ('f, 't) renderer" where
  "set_textures_unloaded s = s\<lparr>textures_unloaded := False\<rparr>"

definition font_resource :: string where
  "font_resource = ''imgui_font''"

definition font_image :: "ImFontAtlas \<Rightarrow> ImageBuffer" where
  "font_image a =
     \<lparr>blob_data = TexPixelsRGBA32 a,
      blob_size = TexWidth a * TexHeight a * TexBytesPerPixel a,
      desc_width = TexWidth a, desc_height = TexHeight a,
      desc_format = R8G8B8A8_UNORM_SRGB, desc_colorSpace = sRGB,
      desc_imageType = Texture2D, desc_arraySize = 1\<rparr>"

definition load_fonts ::
  "('f, 't) MinecraftUIRenderContext \<Rightarrow> ('f, 't) renderer \<Rightarrow> ('f, 't) renderer" where
  "load_fonts ctx s =
     (let imageBuffer = font_image (io_Fonts s);
          s1 = s\<lparr>host := host s @ [GetTexDataAsRGBA32]\<rparr>;
          s2 = s1\<lparr>host := host s1 @ [UploadTexture font_resource imageBuffer]\<rparr>;
          s3 = s2\<lparr>texturePtr := getTexture ctx font_resource False,
                  host := host s2 @ [GetTexture font_resource False]\<rparr>;
          s4 = s3\<lparr>io_Fonts_TexID := AddrOf_texturePtr\<rparr>
      in s4\<lparr>textures_unloaded := False\<rparr>)"

definition new_frame ::
  "('f, 't) MinecraftUIRenderContext \<Rightarrow> ('f, 't) renderer \<Rightarrow> ('f, 't) renderer" where
  "new_frame ctx s =
     (let screenSize = getScreenSize ctx;
          s1 = s\<lparr>io_DisplaySize := Vec2 (vec2_x screenSize) (vec2_y (io_DisplaySize s))\<rparr>
      in s1\<lparr>io_DisplaySize := Vec2 (vec2_x (io_DisplaySize s1)) (vec2_y screenSize)\<rparr>)"

text \<open>
  \<open>vtx_buffer[idx_buffer[j]]\<close>: both reads go through raw pointers, so a position
  outside either buffer is a fault.
\<close>

definition fetch ::
  "'f ImDrawVert list \<Rightarrow> ImDrawIdx list \<Rightarrow> 32 word \<Rightarrow> 'f ImDrawVert option" where
  "fetch vtx_buffer idx_buffer j =
     (if unat j < length idx_buffer then
        (if unat (idx_buffer ! unat j) < length vtx_buffer
         then Some (vtx_buffer ! unat (idx_buffer ! unat j)) else None)
      else None)"

text \<open>\<open>tess->color(v.col); tess->vertexUV(v.pos.x / scale, v.pos.y / scale, 0.0f, v.uv.x, v.uv.y);\<close>\<close>

definition emit_vertex ::
  "'f::{zero,inverse} \<Rightarrow> 'f ImDrawVert \<Rightarrow> ('f, 't) host_call list" where
  "emit_vertex scale v =
     [Tess_color (col v),
      Tess_vertexUV (vec2_x (pos v) / scale) (vec2_y (pos v) / scale) 0
        (vec2_x (uv v)) (vec2_y (uv v))]"

text \<open>
  The innermost loop, \<open>for (unsigned int i = 0; i < cmd.ElemCount; i += 3)\<close>. The counter
  is a 32-bit word and \<open>i += 3\<close> wraps; so do \<open>i + 2\<close> and \<open>i + 1\<close>.
\<close>

function tri_loop ::
  "'f::{zero,inverse} \<Rightarrow> 'f ImDrawVert list \<Rightarrow> ImDrawIdx list \<Rightarrow> 32 word \<Rightarrow> 32 word \<Rightarrow>
   ('f, 't) host_call list \<Rightarrow> fault + ('f, 't) host_call list" where
  "tri_loop scale vtx_buffer idx_buffer n i tess =
     (if i < n then
        (case fetch vtx_buffer idx_buffer (i + 2) of
           None \<Rightarrow> Inl OutOfBounds
         | Some v0 \<Rightarrow>
        (case fetch vtx_buffer idx_buffer (i + 1) of
           None \<Rightarrow> Inl OutOfBounds
         | Some v1 \<Rightarrow>
        (case fetch vtx_buffer idx_buffer (i + 0) of
           None \<Rightarrow> Inl OutOfBounds
         | Some v2 \<Rightarrow>
             tri_loop scale vtx_buffer idx_buffer n (i + 3)
               (tess @ emit_vertex scale v0 @ emit_vertex scale v1 @ emit_vertex scale v2))))
      else Inr tess)"
  by pat_completeness auto

text \<open>
  Termination: \<open>3 * 0xAAAAAAAB = 1\<close> modulo \<open>2 ^ 32\<close>, so \<open>(- 1 - i) * 0xAAAAAAAB\<close> is the
  number of steps of 3 from \<open>i\<close> to the largest word, which is never below \<open>n\<close>.
\<close>

definition steps_left :: "32 word \<Rightarrow> nat" where
  "steps_left i = unat ((- 1 - i) * (0xAAAAAAAB :: 32 word))"

lemma steps_left_general:
  fixes i n k :: "32 word"
  assumes "i < n" and three: "3 * k = 1"
  shows "unat ((- 1 - (i + 3)) * k) < unat ((- 1 - i) * k)"
proof -
  let ?w = "(- 1 - i) * k"
  have "(- 1 - (i + 3)) * k = ?w - 3 * k"
    by (simp add: algebra_simps)
  then have eq: "(- 1 - (i + 3)) * k = ?w - 1"
    using three by simp
  have "i \<noteq> - 1"
    using assms(1) by (metis word_order.extremum_strict)
  then have nz: "- 1 - i \<noteq> 0" by simp
  have "?w * 3 = (- 1 - i) * (3 * k)"
    by (simp add: mult.assoc mult.commute)
  then have "?w * 3 = - 1 - i"
    using three by simp
  with nz have "?w \<noteq> 0" by auto
  then have "unat (?w - 1) < unat ?w"
    by (simp add: unat_minus_one unat_gt_0)
  then show ?thesis using eq by simp
qed

lemma steps_left_decreases: "i < n \<Longrightarrow> steps_left (i + 3) < steps_left i"
  unfolding steps_left_def by (rule steps_left_general) simp_all

termination tri_loop
  by (relation "measure (\<lambda>(scale, vtx_buffer, idx_buffer, n, i, tess). steps_left i)")
     (simp_all add: steps_left_decreases)

declare tri_loop.simps [simp del]

definition material_name :: string where
  "material_name = ''ui_texture_and_color_blur''"

text \<open>
  The loop over the commands of one list,
  \<open>for (int cmd_i = 0; cmd_i < cmd_list->CmdBuffer.Size; cmd_i++)\<close>. The counter starts at 0
  and stays below the size, so it is a natural number.
\<close>

function cmd_loop ::
  "'f::{zero,inverse} \<Rightarrow> 't \<Rightarrow> 'f ImDrawList \<Rightarrow> nat \<Rightarrow>
   ('f, 't) host_call list \<Rightarrow> fault + ('f, 't) host_call list" where
  "cmd_loop scale tex cmd_list cmd_i tess =
     (if cmd_i < length (CmdBuffer cmd_list) then
        (let cmd = CmdBuffer cmd_list ! cmd_i;
             vtx_buffer = VtxBuffer cmd_list;
             idx_buffer = IdxBuffer cmd_list
         in case tri_loop scale vtx_buffer idx_buffer (ElemCount cmd) 0
                   (tess @ [Tess_begin TriangleList 0]) of
              Inl e \<Rightarrow> Inl e
            | Inr tess' \<Rightarrow>
                cmd_loop scale tex cmd_list (cmd_i + 1)
                  (tess' @ [CreateMaterial material_name,
                            RenderMeshImmediately material_name tex]))
      else Inr tess)"
  by pat_completeness auto
termination
  by (relation "measure (\<lambda>(scale, tex, cmd_list, cmd_i, tess).
        length (CmdBuffer cmd_list) - cmd_i)") auto

declare cmd_loop.simps [simp del]

text \<open>
  The outer loop, \<open>for (int n = 0; n < data->CmdListsCount; n++)\<close>; \<open>data->CmdLists[n]\<close>
  outside the array is a fault.
\<close>

function list_loop ::
  "'f::{zero,inverse} \<Rightarrow> 't \<Rightarrow> 'f ImDrawData \<Rightarrow> nat \<Rightarrow>
   ('f, 't) host_call list \<Rightarrow> fault + ('f, 't) host_call list" where
  "list_loop scale tex data n tess =
     (if int n < CmdListsCount data then
        (if n < length (CmdLists data) then
           (case cmd_loop scale tex (CmdLists data ! n) 0 tess of
              Inl e \<Rightarrow> Inl e
            | Inr tess' \<Rightarrow> list_loop scale tex data (n + 1) tess')
         else Inl OutOfBounds)
      else Inr tess)"
  by pat_completeness auto
termination
  by (relation "measure (\<lambda>(scale, tex, data, n, tess). nat (CmdListsCount data) - n)") auto

declare list_loop.simps [simp del]

definition render_draw_data ::
  "'f::{zero,inverse} ImDrawData \<Rightarrow> ('f, 't) MinecraftUIRenderContext \<Rightarrow>
   ('f, 't) renderer \<Rightarrow> fault + ('f, 't) renderer" where
  "render_draw_data data ctx s =
     (let s1 = (if textures_unloaded s then load_fonts ctx s else s);
          scale = getGuiScale ctx
      in case list_loop scale (texturePtr s1) data 0 (host s1) of
           Inl e \<Rightarrow> Inl e
         | Inr tess \<Rightarrow> Inr (s1\<lparr>host := tess\<rparr>))"

text \<open>The stroked-rectangle helpers; \<open>IM_COL32\<close> is the parameter \<open>im_col32\<close>.\<close>

definition draw_rect4 ::
  "('f \<Rightarrow> 'f \<Rightarrow> 'f \<Rightarrow> 'f \<Rightarrow> ImU32) \<Rightarrow> 'f::plus vec2 \<Rightarrow> 'f vec2 \<Rightarrow> 'f vec4 \<Rightarrow> 'f \<Rightarrow>
   'f \<Rightarrow> ('f, 't) renderer \<Rightarrow> ('f, 't) renderer" where
  "draw_rect4 im_col32 p sz color stroke_width radius s =
     s\<lparr>background := background s @
        [AddRect (Vec2 (vec2_x p) (vec2_y p))
           (Vec2 (vec2_x p + vec2_x sz) (vec2_y p + vec2_y sz))
           (im_col32 (vec4_x color) (vec4_y color) (vec4_z color) (vec4_w color))
           radius 0 stroke_width]\<rparr>"

definition draw_rect3 ::
  "('f \<Rightarrow> 'f \<Rightarrow> 'f \<Rightarrow> 'f \<Rightarrow> ImU32) \<Rightarrow> 'f::{one,plus} vec2 \<Rightarrow> 'f vec2 \<Rightarrow> 'f vec3 \<Rightarrow> 'f \<Rightarrow>
   'f \<Rightarrow> ('f, 't) renderer \<Rightarrow> ('f, 't) renderer" where
  "draw_rect3 im_col32 p sz color stroke_width radius s =
     draw_rect4 im_col32 p sz (Vec4 (vec3_x color) (vec3_y color) (vec3_z color) 1)
       stroke_width radius s"

text \<open>
  The filled-rectangle helpers. The macro \<open>IM_COL32\<close> of the UI toolkit (which converts
  four floats to a packed colour) and the default argument of \<open>flags\<close> in the declaration of
  the \<open>vec4\<close> overload are not part of the source file; they are the parameters \<open>im_col32\<close>
  and \<open>default_flags\<close>.
\<close>

definition draw_filled_rect4 ::
  "('f \<Rightarrow> 'f \<Rightarrow> 'f \<Rightarrow> 'f \<Rightarrow> ImU32) \<Rightarrow> 'f::plus vec2 \<Rightarrow> 'f vec2 \<Rightarrow> 'f vec4 \<Rightarrow> 'f \<Rightarrow>
   ImDrawFlags \<Rightarrow> ('f, 't) renderer \<Rightarrow> ('f, 't) renderer" where
  "draw_filled_rect4 im_col32 p sz color radius flags s =
     s\<lparr>background := background s @
        [AddRectFilled (Vec2 (vec2_x p) (vec2_y p))
           (Vec2 (vec2_x p + vec2_x sz) (vec2_y p + vec2_y sz))
           (im_col32 (vec4_x color) (vec4_y color) (vec4_z color) (vec4_w color))
           radius flags]\<rparr>"

definition draw_filled_rect3 ::
  "('f \<Rightarrow> 'f \<Rightarrow> 'f \<Rightarrow> 'f \<Rightarrow> ImU32) \<Rightarrow> ImDrawFlags \<Rightarrow> 'f::{one,plus} vec2 \<Rightarrow> 'f vec2 \<Rightarrow>
   'f vec3 \<Rightarrow> 'f \<Rightarrow> ImDrawFlags \<Rightarrow> ('f, 't) renderer \<Rightarrow> ('f, 't) renderer" where
  "draw_filled_rect3 im_col32 default_flags p sz color radius flags s =
     draw_filled_rect4 im_col32 p sz
       (Vec4 (vec3_x color) (vec3_y color) (vec3_z color) 1) radius default_flags s"

section \<open>What the loops emit\<close>

text \<open>
  The loop over the elements of a command runs once for every started triplet of its
  \<open>ElemCount\<close> elements; triangle \<open>k\<close> reads the index buffer at \<open>3 * k\<close>, \<open>3 * k + 1\<close> and
  \<open>3 * k + 2\<close>, counted from the start of the list's index buffer.
\<close>

definition tri_count :: "32 word \<Rightarrow> nat" where
  "tri_count n = (unat n + 2) div 3"

definition tri_ok :: "'f ImDrawVert list \<Rightarrow> ImDrawIdx list \<Rightarrow> nat \<Rightarrow> bool" where
  "tri_ok vtx_buffer idx_buffer k =
     (3 * k + 2 < length idx_buffer \<and>
      unat (idx_buffer ! (3 * k)) < length vtx_buffer \<and>
      unat (idx_buffer ! (3 * k + 1)) < length vtx_buffer \<and>
      unat (idx_buffer ! (3 * k + 2)) < length vtx_buffer)"

definition read_triplet :: "ImDrawIdx list \<Rightarrow> nat \<Rightarrow> ImDrawIdx \<times> ImDrawIdx \<times> ImDrawIdx" where
  "read_triplet idx_buffer k =
     (idx_buffer ! (3 * k), idx_buffer ! (3 * k + 1), idx_buffer ! (3 * k + 2))"

fun emit_reversed ::
  "'f::{zero,inverse} \<Rightarrow> 'f ImDrawVert list \<Rightarrow> ImDrawIdx \<times> ImDrawIdx \<times> ImDrawIdx \<Rightarrow>
   ('f, 't) host_call list" where
  "emit_reversed scale vtx_buffer (a, b, c) =
     emit_vertex scale (vtx_buffer ! unat c) @ emit_vertex scale (vtx_buffer ! unat b) @
     emit_vertex scale (vtx_buffer ! unat a)"

definition tri_calls ::
  "'f::{zero,inverse} \<Rightarrow> 'f ImDrawVert list \<Rightarrow> ImDrawIdx list \<Rightarrow> nat \<Rightarrow> ('f, 't) host_call list" where
  "tri_calls scale vtx_buffer idx_buffer k =
     emit_reversed scale vtx_buffer (read_triplet idx_buffer k)"

text \<open>
  A command is readable when every triangle it starts lies inside the two buffers; a list
  when all its commands are; the draw data when \<open>CmdListsCount\<close> does not exceed the
  number of lists and the lists it counts are readable. The calls a command causes are
  the opening of its batch, its triangles, and its flush.
\<close>

definition cmd_ok :: "'f ImDrawList \<Rightarrow> ImDrawCmd \<Rightarrow> bool" where
  "cmd_ok cmd_list cmd =
     list_all (tri_ok (VtxBuffer cmd_list) (IdxBuffer cmd_list)) [0..<tri_count (ElemCount cmd)]"

definition cmd_geometry ::
  "'f::{zero,inverse} \<Rightarrow> 'f ImDrawList \<Rightarrow> ImDrawCmd \<Rightarrow> ('f, 't) host_call list" where
  "cmd_geometry scale cmd_list cmd =
     concat (map (tri_calls scale (VtxBuffer cmd_list) (IdxBuffer cmd_list))
       [0..<tri_count (ElemCount cmd)])"

definition cmd_calls ::
  "'f::{zero,inverse} \<Rightarrow> 't \<Rightarrow> 'f ImDrawList \<Rightarrow> ImDrawCmd \<Rightarrow> ('f, 't) host_call list" where
  "cmd_calls scale tex cmd_list cmd =
     Tess_begin TriangleList 0 # cmd_geometry scale cmd_list cmd @
     [CreateMaterial material_name, RenderMeshImmediately material_name tex]"

definition list_ok :: "'f ImDrawList \<Rightarrow> bool" where
  "list_ok cmd_list = list_all (cmd_ok cmd_list) (CmdBuffer cmd_list)"

definition list_calls ::
  "'f::{zero,inverse} \<Rightarrow> 't \<Rightarrow> 'f ImDrawList \<Rightarrow> ('f, 't) host_call list" where
  "list_calls scale tex cmd_list =
     concat (map (cmd_calls scale tex cmd_list) (CmdBuffer cmd_list))"

definition visited :: "'f ImDrawData \<Rightarrow> 'f ImDrawList list" where
  "visited data = take (nat (CmdListsCount data)) (CmdLists data)"

definition data_ok :: "'f ImDrawData \<Rightarrow> bool" where
  "data_ok data =
     (nat (CmdListsCount data) \<le> length (CmdLists data) \<and> list_all list_ok (visited data))"

definition data_calls ::
  "'f::{zero,inverse} \<Rightarrow> 't \<Rightarrow> 'f ImDrawData \<Rightarrow> ('f, 't) host_call list" where
  "data_calls scale tex data = concat (map (list_calls scale tex) (visited data))"

text \<open>The state after the guard at the head of \<open>render_draw_data\<close>.\<close>

definition refreshed ::
  "('f, 't) MinecraftUIRenderContext \<Rightarrow> ('f, 't) renderer \<Rightarrow> ('f, 't) renderer" where
  "refreshed ctx s = (if textures_unloaded s then load_fonts ctx s else s)"

text \<open>Kinds of host calls, for reading the log.\<close>

fun is_upload :: "('f, 't) host_call \<Rightarrow> bool" where
  "is_upload (UploadTexture r b) = True"
| "is_upload _ = False"

fun is_texture_access :: "('f, 't) host_call \<Rightarrow> bool" where
  "is_texture_access GetTexDataAsRGBA32 = True"
| "is_texture_access (UploadTexture r b) = True"
| "is_texture_access (GetTexture r f) = True"
| "is_texture_access (RenderMeshImmediately m t) = True"
| "is_texture_access _ = False"

fun is_begin :: "('f, 't) host_call \<Rightarrow> bool" where
  "is_begin (Tess_begin m f) = True"
| "is_begin _ = False"

fun is_flush :: "('f, 't) host_call \<Rightarrow> bool" where
  "is_flush (RenderMeshImmediately m t) = True"
| "is_flush _ = False"

fun is_vertexUV :: "('f, 't) host_call \<Rightarrow> bool" where
  "is_vertexUV (Tess_vertexUV x y z u v) = True"
| "is_vertexUV _ = False"

fun is_vertex_call :: "('f, 't) host_call \<Rightarrow> bool" where
  "is_vertex_call (Tess_color c) = True"
| "is_vertex_call (Tess_vertexUV x y z u v) = True"
| "is_vertex_call _ = False"

text \<open>The three calls one run of \<open>load_fonts\<close> makes.\<close>

definition font_calls :: "ImFontAtlas \<Rightarrow> ('f, 't) host_call list" where
  "font_calls a =
     [GetTexDataAsRGBA32, UploadTexture font_resource (font_image a),
      GetTexture font_resource False]"

text \<open>
  The scenario of the specification: one list with one command of three elements, indices
  \<open>[0, 1, 2]\<close>, vertices \<open>P0\<close>, \<open>P1\<close>, \<open>P2\<close>, and GUI scale 2.
\<close>

definition scenario_P0 :: "real ImDrawVert" where
  "scenario_P0 = \<lparr>pos = Vec2 2 4, uv = Vec2 0 0, col = 0xFF0000FF\<rparr>"

definition scenario_P1 :: "real ImDrawVert" where
  "scenario_P1 = \<lparr>pos = Vec2 6 8, uv = Vec2 1 0, col = 0xFF00FF00\<rparr>"

definition scenario_P2 :: "real ImDrawVert" where
  "scenario_P2 = \<lparr>pos = Vec2 10 12, uv = Vec2 0 1, col = 0xFFFF0000\<rparr>"

definition scenario_list :: "real ImDrawList" where
  "scenario_list =
     \<lparr>CmdBuffer = [\<lparr>ElemCount = 3\<rparr>],
      VtxBuffer = [scenario_P0, scenario_P1, scenario_P2],
      IdxBuffer = [0, 1, 2]\<rparr>"

definition scenario_data :: "real ImDrawData" where
  "scenario_data = \<lparr>CmdListsCount = 1, CmdLists = [scenario_list]\<rparr>"

definition scenario_ctx :: "(real, nat) MinecraftUIRenderContext" where
  "scenario_ctx = \<lparr>getScreenSize = Vec2 800 600, getGuiScale = 2, getTexture = (\<lambda>r f. 7)\<rparr>"

definition scenario_atlas :: ImFontAtlas where
  "scenario_atlas =
     \<lparr>TexPixelsRGBA32 = [255, 255, 255, 255], TexWidth = 1, TexHeight = 1,
      TexBytesPerPixel = 4\<rparr>"

definition scenario_state :: "bool \<Rightarrow> (real, nat) renderer" where
  "scenario_state unloaded =
     \<lparr>textures_unloaded = unloaded, texturePtr = 5, io_DisplaySize = Vec2 0 0,
      io_Fonts = scenario_atlas, io_Fonts_TexID = NullTexID, background = [], host = []\<rparr>"

text \<open>The calls that reach the tessellator and the mesh renderer, as opposed to the font calls.\<close>

fun is_tess_call :: "('f, 't) host_call \<Rightarrow> bool" where
  "is_tess_call GetTexDataAsRGBA32 = False"
| "is_tess_call (UploadTexture r b) = False"
| "is_tess_call (GetTexture r f) = False"
| "is_tess_call _ = True"

text \<open>The \<open>vertexUV\<close> call the claim expects for a source vertex, and the source vertices in
  the order the loops read them.\<close>

definition scaled_vertex :: "'f::{zero,inverse} \<Rightarrow> 'f ImDrawVert \<Rightarrow> ('f, 't) host_call" where
  "scaled_vertex scale v =
     Tess_vertexUV (vec2_x (pos v) / scale) (vec2_y (pos v) / scale) 0
       (vec2_x (uv v)) (vec2_y (uv v))"

definition fetched_of_triangle :: "'f ImDrawVert list \<Rightarrow> ImDrawIdx list \<Rightarrow> nat \<Rightarrow> 'f ImDrawVert list" where
  "fetched_of_triangle vtx_buffer idx_buffer k =
     [vtx_buffer ! unat (idx_buffer ! (3 * k + 2)),
      vtx_buffer ! unat (idx_buffer ! (3 * k + 1)),
      vtx_buffer ! unat (idx_buffer ! (3 * k))]"

definition fetched_vertices :: "'f ImDrawData \<Rightarrow> 'f ImDrawVert list" where
  "fetched_vertices data =
     concat (map (\<lambda>cmd_list. concat (map (\<lambda>cmd.
        concat (map (fetched_of_triangle (VtxBuffer cmd_list) (IdxBuffer cmd_list))
          [0..<tri_count (ElemCount cmd)]))
       (CmdBuffer cmd_list))) (visited data))"

text \<open>
  The log cut after every flush: each piece is one batch as the host sees it. The source
  commands in paint order, each with its list.
\<close>

fun split_batches ::
  "('f, 't) host_call list \<Rightarrow> ('f, 't) host_call list \<Rightarrow> ('f, 't) host_call list list" where
  "split_batches cur [] = (if cur = [] then [] else [cur])"
| "split_batches cur (c # cs) =
     (if is_flush c then (cur @ [c]) # split_batches [] cs else split_batches (cur @ [c]) cs)"

definition batches :: "('f, 't) host_call list \<Rightarrow> ('f, 't) host_call list list" where
  "batches calls = split_batches [] calls"

definition all_commands :: "'f ImDrawData \<Rightarrow> ('f ImDrawList \<times> ImDrawCmd) list" where
  "all_commands data =
     concat (map (\<lambda>cmd_list. map (Pair cmd_list) (CmdBuffer cmd_list)) (visited data))"

text \<open>
  Draw data with two lists and three commands: a list of two commands, the second of them
  empty, followed by the list of the scenario.
\<close>

definition paint_list :: "real ImDrawList" where
  "paint_list =
     \<lparr>CmdBuffer = [\<lparr>ElemCount = 3\<rparr>, \<lparr>ElemCount = 0\<rparr>],
      VtxBuffer = [scenario_P0, scenario_P1, scenario_P2],
      IdxBuffer = [2, 0, 1]\<rparr>"

definition paint_data :: "real ImDrawData" where
  "paint_data = \<lparr>CmdListsCount = 2, CmdLists = [paint_list, scenario_list]\<rparr>"

definition paint_calls :: "(real, nat) host_call list" where
  "paint_calls =
     [Tess_begin TriangleList 0,
      Tess_color 0xFF00FF00, Tess_vertexUV 3 4 0 1 0,
      Tess_color 0xFF0000FF, Tess_vertexUV 1 2 0 0 0,
      Tess_color 0xFFFF0000, Tess_vertexUV 5 6 0 0 1,
      CreateMaterial material_name, RenderMeshImmediately material_name 5,
      Tess_begin TriangleList 0,
      CreateMaterial material_name, RenderMeshImmediately material_name 5,
      Tess_begin TriangleList 0,
      Tess_color 0xFFFF0000, Tess_vertexUV 5 6 0 0 1,
      Tess_color 0xFF00FF00, Tess_vertexUV 3 4 0 1 0,
      Tess_color 0xFF0000FF, Tess_vertexUV 1 2 0 0 0,
      CreateMaterial material_name, RenderMeshImmediately material_name 5]"

text \<open>Draw data without any list.\<close>

definition empty_data :: "real ImDrawData" where
  "empty_data = \<lparr>CmdListsCount = 0, CmdLists = []\<rparr>"

text \<open>
  What the claim calls the source index triplets. The commands of a list subdivide its
  index buffer into contiguous ranges: the range of a command starts where the range of the
  command before it ends, and holds \<open>ElemCount\<close> indices. \<open>source_triplets\<close> are the triplets
  \<open>(a, b, c)\<close> of the range of command \<open>j\<close>, in source order, and \<open>claimed_calls\<close> are the
  calls the claim expects for the draw data: for every list, every command and every triplet
  of its range, vertex \<open>c\<close>, vertex \<open>b\<close> and vertex \<open>a\<close>.
\<close>

definition cmd_first_index :: "ImDrawCmd list \<Rightarrow> nat \<Rightarrow> nat" where
  "cmd_first_index cmds j = sum_list (map (\<lambda>cmd. unat (ElemCount cmd)) (take j cmds))"

definition source_triplets ::
  "'f ImDrawList \<Rightarrow> nat \<Rightarrow> (ImDrawIdx \<times> ImDrawIdx \<times> ImDrawIdx) list" where
  "source_triplets cmd_list j =
     map (\<lambda>k. (IdxBuffer cmd_list ! (cmd_first_index (CmdBuffer cmd_list) j + 3 * k),
                IdxBuffer cmd_list ! (cmd_first_index (CmdBuffer cmd_list) j + 3 * k + 1),
                IdxBuffer cmd_list ! (cmd_first_index (CmdBuffer cmd_list) j + 3 * k + 2)))
       [0..<unat (ElemCount (CmdBuffer cmd_list ! j)) div 3]"

definition claimed_calls ::
  "'f::{zero,inverse} \<Rightarrow> 'f ImDrawData \<Rightarrow> ('f, 't) host_call list" where
  "claimed_calls scale data =
     concat (map (\<lambda>cmd_list. concat (map (\<lambda>j.
        concat (map (emit_reversed scale (VtxBuffer cmd_list)) (source_triplets cmd_list j)))
       [0..<length (CmdBuffer cmd_list)])) (visited data))"

text \<open>
  One list whose index buffer \<open>[0, 1, 2, 3, 4, 5]\<close> is subdivided by two commands of three
  elements each, over six vertices that differ in colour and position.
\<close>

definition split_list :: "real ImDrawList" where
  "split_list =
     \<lparr>CmdBuffer = [\<lparr>ElemCount = 3\<rparr>, \<lparr>ElemCount = 3\<rparr>],
      VtxBuffer =
        [\<lparr>pos = Vec2 0 0, uv = Vec2 0 0, col = 0\<rparr>,
         \<lparr>pos = Vec2 2 0, uv = Vec2 1 0, col = 1\<rparr>,
         \<lparr>pos = Vec2 4 0, uv = Vec2 0 1, col = 2\<rparr>,
         \<lparr>pos = Vec2 6 2, uv = Vec2 0 0, col = 3\<rparr>,
         \<lparr>pos = Vec2 8 2, uv = Vec2 1 0, col = 4\<rparr>,
         \<lparr>pos = Vec2 10 2, uv = Vec2 0 1, col = 5\<rparr>],
      IdxBuffer = [0, 1, 2, 3, 4, 5]\<rparr>"

definition split_data :: "real ImDrawData" where
  "split_data = \<lparr>CmdListsCount = 1, CmdLists = [split_list]\<rparr>"

definition split_calls :: "(real, nat) host_call list" where
  "split_calls =
     [Tess_begin TriangleList 0,
      Tess_color 2, Tess_vertexUV 2 0 0 0 1,
      Tess_color 1, Tess_vertexUV 1 0 0 1 0,
      Tess_color 0, Tess_vertexUV 0 0 0 0 0,
      CreateMaterial material_name, RenderMeshImmediately material_name 5,
      Tess_begin TriangleList 0,
      Tess_color 2, Tess_vertexUV 2 0 0 0 1,
      Tess_color 1, Tess_vertexUV 1 0 0 1 0,
      Tess_color 0, Tess_vertexUV 0 0 0 0 0,
      CreateMaterial material_name, RenderMeshImmediately material_name 5]"

section \<open>The loops, characterised\<close>

lemma counter_no_wrap:
  fixes i n :: "32 word"
  assumes "i < n" and "unat i = 3 * j"
  shows "unat (i + 1) = 3 * j + 1" and "unat (i + 2) = 3 * j + 2" and "unat (i + 3) = 3 * (j + 1)"
    and "j < tri_count n"
proof -
  have "unat i < unat n" using assms(1) by (simp add: word_less_nat_alt)
  moreover have "unat n < 4294967296" using unsigned_less [of n, where ?'a = nat] by simp
  ultimately have "3 * j + 3 < 4294967296" using assms(2) by presburger
  then have b: "3 * j + 3 < 2 ^ 32" by simp
  show "unat (i + 1) = 3 * j + 1" using b assms(2) by (simp add: unat_word_ariths)
  show "unat (i + 2) = 3 * j + 2" using b assms(2) by (simp add: unat_word_ariths)
  show "unat (i + 3) = 3 * (j + 1)" using b assms(2) by (simp add: unat_word_ariths)
  show "j < tri_count n" using \<open>unat i < unat n\<close> assms(2) unfolding tri_count_def by presburger
qed

lemma tri_loop_char:
  "unat i = 3 * j \<Longrightarrow>
   tri_loop scale vtx_buffer idx_buffer n i tess =
     (if list_all (tri_ok vtx_buffer idx_buffer) [j..<tri_count n]
      then Inr (tess @ concat (map (tri_calls scale vtx_buffer idx_buffer) [j..<tri_count n]))
      else Inl OutOfBounds)"
proof (induction scale vtx_buffer idx_buffer n i tess arbitrary: j rule: tri_loop.induct)
  case (1 scale vtx_buffer idx_buffer n i tess)
  show ?case
  proof (cases "i < n")
    case False
    then have "unat n \<le> 3 * j" using "1.prems" by (simp add: word_less_nat_alt)
    then have "tri_count n \<le> j" unfolding tri_count_def by presburger
    then show ?thesis using False by (subst tri_loop.simps) simp
  next
    case True
    note nw = counter_no_wrap [OF True "1.prems"]
    have upt: "[j..<tri_count n] = j # [j + 1..<tri_count n]"
      using nw(4) by (simp add: upt_conv_Cons)
    show ?thesis
    proof (cases "tri_ok vtx_buffer idx_buffer j")
      case False
      then have "fetch vtx_buffer idx_buffer (i + 2) = None \<or>
                 fetch vtx_buffer idx_buffer (i + 1) = None \<or>
                 fetch vtx_buffer idx_buffer (i + 0) = None"
        using nw "1.prems" by (auto simp: fetch_def tri_ok_def)
      then show ?thesis using True False upt
        by (subst tri_loop.simps) (auto split: option.splits)
    next
      case ok: True
      have f2: "fetch vtx_buffer idx_buffer (i + 2) = Some (vtx_buffer ! unat (idx_buffer ! (3 * j + 2)))"
        and f1: "fetch vtx_buffer idx_buffer (i + 1) = Some (vtx_buffer ! unat (idx_buffer ! (3 * j + 1)))"
        and f0: "fetch vtx_buffer idx_buffer (i + 0) = Some (vtx_buffer ! unat (idx_buffer ! (3 * j)))"
        using ok nw "1.prems" by (simp_all add: fetch_def tri_ok_def)
      let ?v0 = "vtx_buffer ! unat (idx_buffer ! (3 * j + 2))"
      let ?v1 = "vtx_buffer ! unat (idx_buffer ! (3 * j + 1))"
      let ?v2 = "vtx_buffer ! unat (idx_buffer ! (3 * j))"
      let ?tess = "tess @ emit_vertex scale ?v0 @ emit_vertex scale ?v1 @ emit_vertex scale ?v2"
      have "tri_loop scale vtx_buffer idx_buffer n i tess =
            tri_loop scale vtx_buffer idx_buffer n (i + 3) ?tess"
        using True f2 f1 f0 by (subst tri_loop.simps) simp
      also have "\<dots> =
         (if list_all (tri_ok vtx_buffer idx_buffer) [j + 1..<tri_count n]
          then Inr (?tess @ concat (map (tri_calls scale vtx_buffer idx_buffer) [j + 1..<tri_count n]))
          else Inl OutOfBounds)"
        by (rule "1.IH" [OF True f2 f1 f0 nw(3)])
      also have "\<dots> =
         (if list_all (tri_ok vtx_buffer idx_buffer) [j..<tri_count n]
          then Inr (tess @ concat (map (tri_calls scale vtx_buffer idx_buffer) [j..<tri_count n]))
          else Inl OutOfBounds)"
        unfolding upt using ok by (simp add: tri_calls_def read_triplet_def)
      finally show ?thesis .
    qed
  qed
qed

lemma cmd_loop_char:
  "cmd_loop scale tex cmd_list cmd_i tess =
     (if list_all (cmd_ok cmd_list) (drop cmd_i (CmdBuffer cmd_list))
      then Inr (tess @ concat (map (cmd_calls scale tex cmd_list) (drop cmd_i (CmdBuffer cmd_list))))
      else Inl OutOfBounds)"
proof (induction scale tex cmd_list cmd_i tess rule: cmd_loop.induct)
  case (1 scale tex cmd_list cmd_i tess)
  let ?cmds = "CmdBuffer cmd_list"
  show ?case
  proof (cases "cmd_i < length ?cmds")
    case False
    then show ?thesis by (subst cmd_loop.simps) simp
  next
    case True
    let ?cmd = "?cmds ! cmd_i"
    have dr: "drop cmd_i ?cmds = ?cmd # drop (cmd_i + 1) ?cmds"
      using True by (simp add: Cons_nth_drop_Suc)
    have tri: "tri_loop scale (VtxBuffer cmd_list) (IdxBuffer cmd_list) (ElemCount ?cmd) 0
                 (tess @ [Tess_begin TriangleList 0]) =
               (if cmd_ok cmd_list ?cmd
                then Inr ((tess @ [Tess_begin TriangleList 0]) @ cmd_geometry scale cmd_list ?cmd)
                else Inl OutOfBounds)"
      unfolding cmd_ok_def cmd_geometry_def by (rule tri_loop_char) simp
    show ?thesis
    proof (cases "cmd_ok cmd_list ?cmd")
      case False
      then show ?thesis using True tri dr
        by (subst cmd_loop.simps) simp
    next
      case ok: True
      let ?tess = "((tess @ [Tess_begin TriangleList 0]) @ cmd_geometry scale cmd_list ?cmd) @
                   [CreateMaterial material_name, RenderMeshImmediately material_name tex]"
      have t: "tri_loop scale (VtxBuffer cmd_list) (IdxBuffer cmd_list) (ElemCount ?cmd) 0
                 (tess @ [Tess_begin TriangleList 0]) =
               Inr ((tess @ [Tess_begin TriangleList 0]) @ cmd_geometry scale cmd_list ?cmd)"
        using tri ok by simp
      have "cmd_loop scale tex cmd_list cmd_i tess = cmd_loop scale tex cmd_list (cmd_i + 1) ?tess"
        using True t by (subst cmd_loop.simps) simp
      also have "\<dots> =
         (if list_all (cmd_ok cmd_list) (drop (cmd_i + 1) ?cmds)
          then Inr (?tess @ concat (map (cmd_calls scale tex cmd_list) (drop (cmd_i + 1) ?cmds)))
          else Inl OutOfBounds)"
        by (rule "1.IH" [OF True refl refl refl t])
      also have "\<dots> =
         (if list_all (cmd_ok cmd_list) (drop cmd_i ?cmds)
          then Inr (tess @ concat (map (cmd_calls scale tex cmd_list) (drop cmd_i ?cmds)))
          else Inl OutOfBounds)"
        unfolding dr using ok by (simp add: cmd_calls_def)
      finally show ?thesis .
    qed
  qed
qed

lemma list_loop_char:
  "list_loop scale tex data n tess =
     (if (n < nat (CmdListsCount data) \<longrightarrow> nat (CmdListsCount data) \<le> length (CmdLists data)) \<and>
         list_all list_ok (drop n (visited data))
      then Inr (tess @ concat (map (list_calls scale tex) (drop n (visited data))))
      else Inl OutOfBounds)"
proof (induction scale tex data n tess rule: list_loop.induct)
  case (1 scale tex data n tess)
  let ?count = "nat (CmdListsCount data)"
  let ?lists = "CmdLists data"
  have cond: "int n < CmdListsCount data \<longleftrightarrow> n < ?count" by auto
  show ?case
  proof (cases "n < ?count")
    case False
    then have "drop n (visited data) = []" by (simp add: visited_def)
    then show ?thesis using False cond by (subst list_loop.simps) simp
  next
    case True
    show ?thesis
    proof (cases "n < length ?lists")
      case False
      then show ?thesis using True cond by (subst list_loop.simps) simp
    next
      case inb: True
      let ?l = "?lists ! n"
      have dr: "drop n (visited data) = ?l # drop (n + 1) (visited data)"
        using True inb by (simp add: visited_def Cons_nth_drop_Suc [symmetric])
      have c: "cmd_loop scale tex ?l 0 tess =
                 (if list_ok ?l then Inr (tess @ list_calls scale tex ?l) else Inl OutOfBounds)"
        by (simp add: cmd_loop_char list_ok_def list_calls_def)
      show ?thesis
      proof (cases "list_ok ?l")
        case False
        then show ?thesis using True inb cond c dr by (subst list_loop.simps) simp
      next
        case ok: True
        let ?tess = "tess @ list_calls scale tex ?l"
        have c': "cmd_loop scale tex ?l 0 tess = Inr ?tess" using c ok by simp
        have "list_loop scale tex data n tess = list_loop scale tex data (n + 1) ?tess"
          using True inb cond c' by (subst list_loop.simps) simp
        also have "\<dots> =
           (if (n + 1 < ?count \<longrightarrow> ?count \<le> length ?lists) \<and>
               list_all list_ok (drop (n + 1) (visited data))
            then Inr (?tess @ concat (map (list_calls scale tex) (drop (n + 1) (visited data))))
            else Inl OutOfBounds)"
          using True inb cond by (intro "1.IH" [OF _ _ c']) simp_all
        also have "\<dots> =
           (if (n < ?count \<longrightarrow> ?count \<le> length ?lists) \<and>
               list_all list_ok (drop n (visited data))
            then Inr (tess @ concat (map (list_calls scale tex) (drop n (visited data))))
            else Inl OutOfBounds)"
        proof -
          have "(n + 1 < ?count \<longrightarrow> ?count \<le> length ?lists) \<longleftrightarrow>
                (n < ?count \<longrightarrow> ?count \<le> length ?lists)"
            using True inb by auto
          then show ?thesis unfolding dr using ok by simp
        qed
        finally show ?thesis .
      qed
    qed
  qed
qed

lemma render_draw_data_char:
  "render_draw_data data ctx s =
     (if data_ok data
      then Inr ((refreshed ctx s)\<lparr>host := host (refreshed ctx s) @
                  data_calls (getGuiScale ctx) (texturePtr (refreshed ctx s)) data\<rparr>)
      else Inl OutOfBounds)"
proof -
  have "(0 < nat (CmdListsCount data) \<longrightarrow> nat (CmdListsCount data) \<le> length (CmdLists data))
        \<longleftrightarrow> nat (CmdListsCount data) \<le> length (CmdLists data)"
    by auto
  then show ?thesis
    by (simp add: render_draw_data_def list_loop_char data_ok_def data_calls_def refreshed_def
        Let_def)
qed

lemma host_refreshed:
  "host (refreshed ctx s) =
     host s @ (if textures_unloaded s then font_calls (io_Fonts s) else [])"
  by (simp add: refreshed_def load_fonts_def font_calls_def Let_def)

lemma filter_tri_calls [simp]:
  "filter is_vertex_call (tri_calls scale vtx_buffer idx_buffer k) =
     tri_calls scale vtx_buffer idx_buffer k"
  "length (filter is_vertexUV (tri_calls scale vtx_buffer idx_buffer k)) = 3"
  "filter is_flush (tri_calls scale vtx_buffer idx_buffer k) = []"
  "filter is_begin (tri_calls scale vtx_buffer idx_buffer k) = []"
  "filter is_texture_access (tri_calls scale vtx_buffer idx_buffer k) = []"
  by (simp_all add: tri_calls_def read_triplet_def emit_vertex_def)

lemma filter_cmd_geometry [simp]:
  "filter is_vertex_call (cmd_geometry scale cmd_list cmd) = cmd_geometry scale cmd_list cmd"
  "length (filter is_vertexUV (cmd_geometry scale cmd_list cmd)) = 3 * tri_count (ElemCount cmd)"
  "filter is_flush (cmd_geometry scale cmd_list cmd) = []"
  "filter is_begin (cmd_geometry scale cmd_list cmd) = []"
  by (simp_all add: cmd_geometry_def filter_concat comp_def length_concat sum_list_triv
      cong: map_cong)

lemma filter_font_calls [simp]:
  "filter is_vertex_call (font_calls a) = []"
  "filter is_vertexUV (font_calls a) = []"
  "filter is_begin (font_calls a) = []"
  "filter is_flush (font_calls a) = []"
  by (simp_all add: font_calls_def)

lemmas scenario_defs =
  scenario_P0_def scenario_P1_def scenario_P2_def scenario_list_def scenario_data_def
  scenario_ctx_def scenario_atlas_def scenario_state_def

lemma scenario_data_ok: "data_ok scenario_data"
  by (simp add: data_ok_def visited_def list_ok_def cmd_ok_def tri_count_def tri_ok_def
      scenario_defs)

lemma scenario_render:
  "render_draw_data scenario_data scenario_ctx (scenario_state u) =
     Inr ((refreshed scenario_ctx (scenario_state u))
       \<lparr>host := host (refreshed scenario_ctx (scenario_state u)) @
         [Tess_begin TriangleList 0,
          Tess_color 0xFFFF0000, Tess_vertexUV 5 6 0 0 1,
          Tess_color 0xFF00FF00, Tess_vertexUV 3 4 0 1 0,
          Tess_color 0xFF0000FF, Tess_vertexUV 1 2 0 0 0,
          CreateMaterial material_name,
          RenderMeshImmediately material_name (texturePtr (refreshed scenario_ctx (scenario_state u)))]\<rparr>)"
  by (simp add: render_draw_data_def refreshed_def Let_def list_loop.simps cmd_loop.simps tri_loop.simps fetch_def emit_vertex_def scenario_defs)

lemma render_returns_iff:
  "(\<exists>s'. render_draw_data data ctx s = Inr s') \<longleftrightarrow> data_ok data"
  by (simp add: render_draw_data_char)

lemma render_returns:
  assumes "render_draw_data data ctx s = Inr s'"
  shows "data_ok data"
    and "s' = (refreshed ctx s)\<lparr>host := host (refreshed ctx s) @
                data_calls (getGuiScale ctx) (texturePtr (refreshed ctx s)) data\<rparr>"
  using assms by (simp_all add: render_draw_data_char split: if_splits)

lemma new_calls:
  assumes "render_draw_data data ctx s = Inr s'"
  shows "drop (length (host s)) (host s') =
           (if textures_unloaded s then font_calls (io_Fonts s) else []) @
           data_calls (getGuiScale ctx) (texturePtr s') data"
  unfolding render_returns(2) [OF assms] by (simp add: host_refreshed)

lemma vertexUV_of_tri_calls:
  "filter is_vertexUV (tri_calls scale vtx_buffer idx_buffer k) =
     map (scaled_vertex scale) (fetched_of_triangle vtx_buffer idx_buffer k)"
  by (simp add: tri_calls_def read_triplet_def emit_vertex_def scaled_vertex_def
      fetched_of_triangle_def)

lemma vertexUV_of_cmd_calls:
  "filter is_vertexUV (cmd_calls scale tex cmd_list cmd) =
     map (scaled_vertex scale)
       (concat (map (fetched_of_triangle (VtxBuffer cmd_list) (IdxBuffer cmd_list))
          [0..<tri_count (ElemCount cmd)]))"
  by (simp add: cmd_calls_def cmd_geometry_def filter_concat map_concat comp_def
      vertexUV_of_tri_calls)

lemma vertexUV_of_data_calls:
  "filter is_vertexUV (data_calls scale tex data) =
     map (scaled_vertex scale) (fetched_vertices data)"
  by (simp add: data_calls_def list_calls_def fetched_vertices_def filter_concat map_concat
      comp_def vertexUV_of_cmd_calls)

lemma fetched_in_buffers:
  assumes "data_ok data"
  shows "set (fetched_vertices data) \<subseteq> (\<Union>cmd_list \<in> set (visited data). set (VtxBuffer cmd_list))"
proof
  fix v assume "v \<in> set (fetched_vertices data)"
  then obtain cmd_list cmd k where l: "cmd_list \<in> set (visited data)"
    and c: "cmd \<in> set (CmdBuffer cmd_list)" and k: "k < tri_count (ElemCount cmd)"
    and v: "v \<in> set (fetched_of_triangle (VtxBuffer cmd_list) (IdxBuffer cmd_list) k)"
    by (auto simp: fetched_vertices_def)
  have "tri_ok (VtxBuffer cmd_list) (IdxBuffer cmd_list) k"
    using assms l c k by (auto simp: data_ok_def list_ok_def cmd_ok_def list_all_iff)
  then have "v \<in> set (VtxBuffer cmd_list)"
    using v by (auto simp: tri_ok_def fetched_of_triangle_def)
  then show "v \<in> (\<Union>cmd_list \<in> set (visited data). set (VtxBuffer cmd_list))"
    using l by blast
qed

lemma tess_calls_of_data [simp]:
  "list_all is_tess_call (data_calls scale tex data)"
  by (auto simp: data_calls_def list_calls_def cmd_calls_def cmd_geometry_def tri_calls_def
      read_triplet_def emit_vertex_def list_all_iff)

lemma no_tess_call_in_font_calls [simp]:
  "filter is_tess_call (font_calls a) = []"
  by (simp add: font_calls_def)

lemma split_batches_append:
  "filter is_flush xs = [] \<Longrightarrow> split_batches cur (xs @ ys) = split_batches (cur @ xs) ys"
  by (induction xs arbitrary: cur) (auto split: if_splits)

lemma split_batches_block:
  assumes "filter is_flush pre = []" and "is_flush c"
  shows "split_batches cur (pre @ c # rest) = (cur @ pre @ [c]) # split_batches [] rest"
  using assms by (simp add: split_batches_append)

lemma batches_cmd_calls:
  fixes scale :: "'f::{zero,inverse}" and tex :: 't
  shows "batches (cmd_calls scale tex cmd_list cmd @ rest) =
     cmd_calls scale tex cmd_list cmd # batches rest"
proof -
  let ?pre = "Tess_begin TriangleList 0 # cmd_geometry scale cmd_list cmd @
              [CreateMaterial material_name]"
  let ?flush = "RenderMeshImmediately material_name tex :: ('f, 't) host_call"
  have shape: "cmd_calls scale tex cmd_list cmd @ rest = ?pre @ ?flush # rest"
    by (simp add: cmd_calls_def)
  have "split_batches [] (?pre @ ?flush # rest) = ([] @ ?pre @ [?flush]) # split_batches [] rest"
    by (rule split_batches_block) simp_all
  then show ?thesis
    unfolding batches_def shape by (simp add: cmd_calls_def)
qed

lemma batches_list_calls:
  "batches (concat (map (cmd_calls scale tex cmd_list) cmds) @ rest) =
     map (cmd_calls scale tex cmd_list) cmds @ batches rest"
  by (induction cmds) (simp_all add: batches_cmd_calls)

lemma batches_data_calls:
  "batches (concat (map (list_calls scale tex) ls) @ rest) =
     concat (map (\<lambda>cmd_list. map (cmd_calls scale tex cmd_list) (CmdBuffer cmd_list)) ls) @
     batches rest"
  by (induction ls) (simp_all add: list_calls_def batches_list_calls)

lemma batches_of_data:
  "batches (data_calls scale tex data) =
     map (\<lambda>(cmd_list, cmd). cmd_calls scale tex cmd_list cmd) (all_commands data)"
proof -
  have "batches (data_calls scale tex data @ []) =
        concat (map (\<lambda>cmd_list. map (cmd_calls scale tex cmd_list) (CmdBuffer cmd_list))
          (visited data)) @ batches []"
    unfolding data_calls_def by (rule batches_data_calls)
  then show ?thesis
    by (simp add: all_commands_def batches_def map_concat comp_def)
qed

lemma flush_count_of_data:
  "length (filter is_flush (data_calls scale tex data)) = length (all_commands data)"
  by (simp add: data_calls_def list_calls_def cmd_calls_def all_commands_def filter_concat
      length_concat comp_def sum_list_triv)

lemma filter_tess_data_calls [simp]:
  "filter is_tess_call (data_calls scale tex data) = data_calls scale tex data"
  using tess_calls_of_data [of scale tex data] by (simp add: list_all_iff)

lemma paint_render:
  "render_draw_data paint_data scenario_ctx (scenario_state False) =
     Inr ((scenario_state False)\<lparr>host := paint_calls\<rparr>)"
  by (simp add: render_draw_data_def Let_def list_loop.simps cmd_loop.simps tri_loop.simps
      fetch_def emit_vertex_def paint_list_def paint_data_def paint_calls_def scenario_defs)

lemma no_upload_in_data_calls [simp]:
  "filter is_upload (data_calls scale tex data) = []"
  by (auto simp: data_calls_def list_calls_def cmd_calls_def cmd_geometry_def tri_calls_def
      read_triplet_def emit_vertex_def filter_empty_conv)

lemma uploads_of_load_fonts:
  "length (filter is_upload (host (load_fonts ctx s))) = length (filter is_upload (host s)) + 1"
  by (simp add: load_fonts_def Let_def)

lemma render_uploads:
  assumes "render_draw_data data ctx s = Inr s'"
  shows "length (filter is_upload (host s')) =
           length (filter is_upload (host s)) + (if textures_unloaded s then 1 else 0)"
    and "\<not> textures_unloaded s'"
proof -
  note s' = render_returns(2) [OF assms]
  show "length (filter is_upload (host s')) =
           length (filter is_upload (host s)) + (if textures_unloaded s then 1 else 0)"
    unfolding s' by (simp add: host_refreshed font_calls_def)
  show "\<not> textures_unloaded s'"
    unfolding s' by (simp add: refreshed_def load_fonts_def Let_def)
qed

lemma split_render:
  "render_draw_data split_data scenario_ctx (scenario_state False) =
     Inr ((scenario_state False)\<lparr>host := split_calls\<rparr>)"
  by (simp add: render_draw_data_def Let_def list_loop.simps cmd_loop.simps tri_loop.simps
      fetch_def emit_vertex_def split_list_def split_data_def split_calls_def scenario_defs)

lemma split_source_triplets:
  "source_triplets split_list 0 = [(0, 1, 2)]"
  "source_triplets split_list 1 = [(3, 4, 5)]"
  by (simp_all add: source_triplets_def cmd_first_index_def split_list_def)

lemma split_claimed:
  "claimed_calls (getGuiScale scenario_ctx) split_data =
     [Tess_color 2, Tess_vertexUV 2 0 0 0 1,
      Tess_color 1, Tess_vertexUV 1 0 0 1 0,
      Tess_color 0, Tess_vertexUV 0 0 0 0 0,
      Tess_color 5, Tess_vertexUV 5 1 0 0 1,
      Tess_color 4, Tess_vertexUV 4 1 0 1 0,
      Tess_color 3, Tess_vertexUV 3 1 0 0 0 :: (real, nat) host_call]"
proof -
  have upt2: "[0..<2] = [0, Suc 0]" by (simp add: upt_rec)
  have second: "source_triplets split_list (Suc 0) = [(3, 4, 5)]"
    using split_source_triplets(2) by simp
  have cmds: "length (CmdBuffer split_list) = 2" by (simp add: split_list_def)
  show ?thesis
    unfolding claimed_calls_def visited_def
    by (simp add: split_data_def cmds upt2 split_source_triplets(1) second)
       (simp add: split_list_def emit_vertex_def scenario_ctx_def)
qed

section \<open>The claims\<close>

text \<open>
  Claim C1. The claim says that \<open>set_textures_unloaded\<close> sets the invalidation flag. The
  code assigns \<open>false\<close>: after the call the flag is clear, whatever it was before. The call
  makes no host call and leaves every other part of the state alone.
\<close>

theorem set_textures_unloaded_clears_flag:
  "\<not> textures_unloaded (set_textures_unloaded s) \<and>
   set_textures_unloaded (scenario_state True) = scenario_state False \<and>
   host (set_textures_unloaded s) = host s \<and>
   texturePtr (set_textures_unloaded s) = texturePtr s"
  by (simp add: set_textures_unloaded_def scenario_state_def)

text \<open>
  Claim C2. The claim says that \<open>set_textures_unloaded\<close> followed by \<open>render_draw_data\<close>
  runs \<open>load_fonts\<close> exactly once, before any tessellator call. On the scenario, with the
  flag clear or set beforehand, the submit makes no call of \<open>load_fonts\<close> at all: the log
  holds the tessellator calls only.
\<close>

theorem unloaded_then_render_loads_no_font:
  "render_draw_data scenario_data scenario_ctx (set_textures_unloaded (scenario_state u)) =
     Inr ((scenario_state False)\<lparr>host :=
       [Tess_begin TriangleList 0,
        Tess_color 0xFFFF0000, Tess_vertexUV 5 6 0 0 1,
        Tess_color 0xFF00FF00, Tess_vertexUV 3 4 0 1 0,
        Tess_color 0xFF0000FF, Tess_vertexUV 1 2 0 0 0,
        CreateMaterial material_name, RenderMeshImmediately material_name 5]\<rparr>)"
proof -
  have "set_textures_unloaded (scenario_state u) = scenario_state False"
    by (simp add: set_textures_unloaded_def scenario_state_def)
  then show ?thesis
    by (simp add: scenario_render refreshed_def) (simp add: scenario_state_def)
qed

text \<open>
  Claim C3. The claim says that for each source index triplet \<open>(a, b, c)\<close> the vertices
  \<open>c\<close>, \<open>b\<close>, \<open>a\<close> are emitted. The code reads the triplets of every command from the start of
  the list's index buffer, not from the range of the command. On a list whose two commands
  hold the triplets \<open>(0, 1, 2)\<close> and \<open>(3, 4, 5)\<close> the submit returns and emits two triangles,
  as many as the commands cover, but both are \<open>vertex[2]\<close>, \<open>vertex[1]\<close>, \<open>vertex[0]\<close>: the
  triplet \<open>(3, 4, 5)\<close> of the second command never reaches the tessellator.
\<close>

theorem second_command_rereads_first_triplet:
  "render_draw_data split_data scenario_ctx (scenario_state False) =
     Inr ((scenario_state False)\<lparr>host := split_calls\<rparr>) \<and>
   source_triplets split_list 0 = [(0, 1, 2)] \<and>
   source_triplets split_list 1 = [(3, 4, 5)] \<and>
   filter is_vertex_call split_calls =
     [Tess_color 2, Tess_vertexUV 2 0 0 0 1,
      Tess_color 1, Tess_vertexUV 1 0 0 1 0,
      Tess_color 0, Tess_vertexUV 0 0 0 0 0,
      Tess_color 2, Tess_vertexUV 2 0 0 0 1,
      Tess_color 1, Tess_vertexUV 1 0 0 1 0,
      Tess_color 0, Tess_vertexUV 0 0 0 0 0] \<and>
   claimed_calls (getGuiScale scenario_ctx) split_data =
     [Tess_color 2, Tess_vertexUV 2 0 0 0 1,
      Tess_color 1, Tess_vertexUV 1 0 0 1 0,
      Tess_color 0, Tess_vertexUV 0 0 0 0 0,
      Tess_color 5, Tess_vertexUV 5 1 0 0 1,
      Tess_color 4, Tess_vertexUV 4 1 0 1 0,
      Tess_color 3, Tess_vertexUV 3 1 0 0 0 :: (real, nat) host_call] \<and>
   filter is_vertex_call split_calls \<noteq> claimed_calls (getGuiScale scenario_ctx) split_data"
proof -
  have emitted: "filter is_vertex_call split_calls =
     [Tess_color 2, Tess_vertexUV 2 0 0 0 1,
      Tess_color 1, Tess_vertexUV 1 0 0 1 0,
      Tess_color 0, Tess_vertexUV 0 0 0 0 0,
      Tess_color 2, Tess_vertexUV 2 0 0 0 1,
      Tess_color 1, Tess_vertexUV 1 0 0 1 0,
      Tess_color 0, Tess_vertexUV 0 0 0 0 0]"
    by (simp add: split_calls_def)
  have differ: "filter is_vertex_call split_calls \<noteq>
                claimed_calls (getGuiScale scenario_ctx) split_data"
    unfolding emitted split_claimed by simp
  show ?thesis
    using split_render split_source_triplets split_claimed emitted differ by simp
qed

text \<open>
  Claim C4, as stated, fails: \<open>load_fonts\<close> has no guard of its own. Called twice in
  succession on the scenario it uploads the font texture twice.
\<close>

theorem load_fonts_twice_uploads_twice:
  "host (load_fonts scenario_ctx (load_fonts scenario_ctx (scenario_state True))) =
     [GetTexDataAsRGBA32, UploadTexture font_resource (font_image scenario_atlas),
      GetTexture font_resource False,
      GetTexDataAsRGBA32, UploadTexture font_resource (font_image scenario_atlas),
      GetTexture font_resource False] \<and>
   length (filter is_upload
     (host (load_fonts scenario_ctx (load_fonts scenario_ctx (scenario_state True))))) = 2"
  by (simp add: load_fonts_def Let_def scenario_state_def)

text \<open>
  Claim C4, amended. \<open>load_fonts\<close> uploads the font texture on every call, whatever the
  invalidation flag: two calls in succession perform two uploads. The upload happens at most
  once at the guarded call in \<open>render_draw_data\<close>: two submits in succession that return
  perform one upload together when the flag was set before the first, and none when it was
  clear.
\<close>

theorem load_fonts_uploads_each_call_guard_in_render:
  assumes "render_draw_data data1 ctx1 s = Inr s1" and "render_draw_data data2 ctx2 s1 = Inr s2"
  shows "length (filter is_upload (host (load_fonts ctx2 (load_fonts ctx1 s)))) =
           length (filter is_upload (host s)) + 2 \<and>
         length (filter is_upload (host s2)) =
           length (filter is_upload (host s)) + (if textures_unloaded s then 1 else 0)"
proof -
  have "length (filter is_upload (host s2)) = length (filter is_upload (host s1))"
    using render_uploads [OF assms(2)] render_uploads(2) [OF assms(1)] by simp
  then show ?thesis
    using render_uploads(1) [OF assms(1)] by (simp add: uploads_of_load_fonts)
qed

theorem load_fonts_uploads_each_call_guard_in_render_witness:
  "render_draw_data scenario_data scenario_ctx (scenario_state True) =
     Inr (refreshed scenario_ctx (scenario_state True)
       \<lparr>host := host (refreshed scenario_ctx (scenario_state True)) @
          data_calls (getGuiScale scenario_ctx)
            (texturePtr (refreshed scenario_ctx (scenario_state True))) scenario_data\<rparr>) \<and>
   render_draw_data empty_data scenario_ctx
     (refreshed scenario_ctx (scenario_state True)
       \<lparr>host := host (refreshed scenario_ctx (scenario_state True)) @
          data_calls (getGuiScale scenario_ctx)
            (texturePtr (refreshed scenario_ctx (scenario_state True))) scenario_data\<rparr>) =
     Inr (refreshed scenario_ctx (scenario_state True)
       \<lparr>host := host (refreshed scenario_ctx (scenario_state True)) @
          data_calls (getGuiScale scenario_ctx)
            (texturePtr (refreshed scenario_ctx (scenario_state True))) scenario_data\<rparr>) \<and>
   length (filter is_upload
     (host (load_fonts scenario_ctx (load_fonts scenario_ctx (scenario_state True))))) = 2 \<and>
   length (filter is_upload
     (host (refreshed scenario_ctx (scenario_state True)
       \<lparr>host := host (refreshed scenario_ctx (scenario_state True)) @
          data_calls (getGuiScale scenario_ctx)
            (texturePtr (refreshed scenario_ctx (scenario_state True))) scenario_data\<rparr>))) = 1"
proof -
  let ?s = "scenario_state True"
  let ?s1 = "refreshed scenario_ctx ?s
       \<lparr>host := host (refreshed scenario_ctx ?s) @
          data_calls (getGuiScale scenario_ctx) (texturePtr (refreshed scenario_ctx ?s))
            scenario_data\<rparr>"
  have r1: "render_draw_data scenario_data scenario_ctx ?s = Inr ?s1"
    using scenario_data_ok by (simp add: render_draw_data_char)
  have ok: "data_ok empty_data"
    by (simp add: data_ok_def visited_def empty_data_def)
  have clear: "\<not> textures_unloaded ?s1"
    by (simp add: refreshed_def load_fonts_def Let_def)
  have r2: "render_draw_data empty_data scenario_ctx ?s1 = Inr ?s1"
    using ok clear
    by (simp add: render_draw_data_char refreshed_def data_calls_def visited_def empty_data_def)
  have "length (filter is_upload (host ?s)) = 0" and "textures_unloaded ?s"
    by (simp_all add: scenario_state_def)
  then show ?thesis
    using load_fonts_uploads_each_call_guard_in_render [OF r1 r2] r1 r2 by simp
qed

text \<open>
  Claim C5. Whenever \<open>render_draw_data\<close> returns, the \<open>vertexUV\<close> calls it makes are,
  in order, the source vertices it read, each with its position divided by the GUI scale of
  the render context, \<open>z = 0\<close>, and its UV passed on as it is. Every vertex read is an
  element of the vertex buffer of one of the lists.
\<close>

theorem render_scales_positions_not_uvs:
  assumes "render_draw_data data ctx s = Inr s'"
  shows "filter is_vertexUV (drop (length (host s)) (host s')) =
           map (\<lambda>v. Tess_vertexUV (vec2_x (pos v) / getGuiScale ctx)
                      (vec2_y (pos v) / getGuiScale ctx) 0 (vec2_x (uv v)) (vec2_y (uv v)))
             (fetched_vertices data) \<and>
         set (fetched_vertices data) \<subseteq>
           (\<Union>cmd_list \<in> set (visited data). set (VtxBuffer cmd_list))"
proof -
  have "filter is_vertexUV (drop (length (host s)) (host s')) =
        map (scaled_vertex (getGuiScale ctx)) (fetched_vertices data)"
    unfolding new_calls [OF assms] by (simp add: vertexUV_of_data_calls)
  then have "filter is_vertexUV (drop (length (host s)) (host s')) =
           map (\<lambda>v. Tess_vertexUV (vec2_x (pos v) / getGuiScale ctx)
                      (vec2_y (pos v) / getGuiScale ctx) 0 (vec2_x (uv v)) (vec2_y (uv v)))
             (fetched_vertices data)"
    unfolding scaled_vertex_def [abs_def] .
  then show ?thesis
    using fetched_in_buffers [OF render_returns(1) [OF assms]] by (rule conjI)
qed

theorem render_scales_positions_not_uvs_witness:
  "render_draw_data scenario_data scenario_ctx (scenario_state False) =
     Inr ((scenario_state False)\<lparr>host :=
       [Tess_begin TriangleList 0,
        Tess_color 0xFFFF0000, Tess_vertexUV 5 6 0 0 1,
        Tess_color 0xFF00FF00, Tess_vertexUV 3 4 0 1 0,
        Tess_color 0xFF0000FF, Tess_vertexUV 1 2 0 0 0,
        CreateMaterial material_name, RenderMeshImmediately material_name 5]\<rparr>) \<and>
   map (\<lambda>v. Tess_vertexUV (vec2_x (pos v) / getGuiScale scenario_ctx)
              (vec2_y (pos v) / getGuiScale scenario_ctx) 0 (vec2_x (uv v)) (vec2_y (uv v)))
     (fetched_vertices scenario_data) =
     [Tess_vertexUV 5 6 0 0 1, Tess_vertexUV 3 4 0 1 0, Tess_vertexUV 1 2 0 0 0
        :: (real, nat) host_call]"
proof -
  let ?s' = "(scenario_state False)\<lparr>host :=
       [Tess_begin TriangleList 0,
        Tess_color 0xFFFF0000, Tess_vertexUV 5 6 0 0 1,
        Tess_color 0xFF00FF00, Tess_vertexUV 3 4 0 1 0,
        Tess_color 0xFF0000FF, Tess_vertexUV 1 2 0 0 0,
        CreateMaterial material_name, RenderMeshImmediately material_name 5]\<rparr>"
  have r: "render_draw_data scenario_data scenario_ctx (scenario_state False) = Inr ?s'"
    by (simp add: scenario_render refreshed_def) (simp add: scenario_state_def)
  have "filter is_vertexUV (drop (length (host (scenario_state False))) (host ?s')) =
        [Tess_vertexUV 5 6 0 0 1, Tess_vertexUV 3 4 0 1 0, Tess_vertexUV 1 2 0 0 0]"
    by (simp add: scenario_state_def)
  then show ?thesis
    using render_scales_positions_not_uvs [OF r] r by simp
qed

text \<open>
  Claim C6. Whenever \<open>render_draw_data\<close> is called with the invalidation flag set and
  returns, the three calls of \<open>load_fonts\<close> are the first calls it makes, everything after
  them is a tessellator or mesh call, and these use the texture just fetched; the flag is
  clear in the state it returns.
\<close>

theorem render_refreshes_font_before_geometry:
  assumes "textures_unloaded s" and "render_draw_data data ctx s = Inr s'"
  shows "\<not> textures_unloaded s' \<and>
         texturePtr s' = getTexture ctx font_resource False \<and>
         host s' = host s @
           [GetTexDataAsRGBA32, UploadTexture font_resource (font_image (io_Fonts s)),
            GetTexture font_resource False] @
           data_calls (getGuiScale ctx) (getTexture ctx font_resource False) data \<and>
         list_all is_tess_call
           (data_calls (getGuiScale ctx) (getTexture ctx font_resource False) data)"
proof -
  have s1: "refreshed ctx s = load_fonts ctx s"
    using assms(1) by (simp add: refreshed_def)
  have "s' = (load_fonts ctx s)\<lparr>host := host (load_fonts ctx s) @
          data_calls (getGuiScale ctx) (texturePtr (load_fonts ctx s)) data\<rparr>"
    using render_returns(2) [OF assms(2)] unfolding s1 .
  then show ?thesis
    by (simp add: load_fonts_def Let_def)
qed

theorem render_refreshes_font_before_geometry_witness:
  "textures_unloaded (scenario_state True) \<and>
   render_draw_data scenario_data scenario_ctx (scenario_state True) =
     Inr ((scenario_state False)\<lparr>texturePtr := 7, io_Fonts_TexID := AddrOf_texturePtr, host :=
       [GetTexDataAsRGBA32, UploadTexture font_resource (font_image scenario_atlas),
        GetTexture font_resource False,
        Tess_begin TriangleList 0,
        Tess_color 0xFFFF0000, Tess_vertexUV 5 6 0 0 1,
        Tess_color 0xFF00FF00, Tess_vertexUV 3 4 0 1 0,
        Tess_color 0xFF0000FF, Tess_vertexUV 1 2 0 0 0,
        CreateMaterial material_name, RenderMeshImmediately material_name 7]\<rparr>) \<and>
   data_calls (getGuiScale scenario_ctx) (getTexture scenario_ctx font_resource False)
     scenario_data =
       [Tess_begin TriangleList 0,
        Tess_color 0xFFFF0000, Tess_vertexUV 5 6 0 0 1,
        Tess_color 0xFF00FF00, Tess_vertexUV 3 4 0 1 0,
        Tess_color 0xFF0000FF, Tess_vertexUV 1 2 0 0 0,
        CreateMaterial material_name, RenderMeshImmediately material_name 7]"
proof -
  let ?s' = "(scenario_state False)\<lparr>texturePtr := 7, io_Fonts_TexID := AddrOf_texturePtr, host :=
       [GetTexDataAsRGBA32, UploadTexture font_resource (font_image scenario_atlas),
        GetTexture font_resource False,
        Tess_begin TriangleList 0,
        Tess_color 0xFFFF0000, Tess_vertexUV 5 6 0 0 1,
        Tess_color 0xFF00FF00, Tess_vertexUV 3 4 0 1 0,
        Tess_color 0xFF0000FF, Tess_vertexUV 1 2 0 0 0,
        CreateMaterial material_name, RenderMeshImmediately material_name 7]\<rparr>"
  have u: "textures_unloaded (scenario_state True)"
    by (simp add: scenario_state_def)
  have r: "render_draw_data scenario_data scenario_ctx (scenario_state True) = Inr ?s'"
    by (simp add: scenario_render refreshed_def)
       (simp add: scenario_state_def load_fonts_def scenario_ctx_def Let_def)
  have "host ?s' = host (scenario_state True) @
           [GetTexDataAsRGBA32, UploadTexture font_resource (font_image (io_Fonts (scenario_state True))),
            GetTexture font_resource False] @
           data_calls (getGuiScale scenario_ctx) (getTexture scenario_ctx font_resource False)
             scenario_data"
    using render_refreshes_font_before_geometry [OF u r] by blast
  then show ?thesis using u r by (simp add: scenario_state_def)
qed

text \<open>
  Claim C7. Whenever \<open>render_draw_data\<close> returns, cutting its tessellator calls after
  every flush gives exactly one batch for each source command, in the order of the
  commands across all lists: the batch of a command opens with \<open>begin\<close>, holds the triangles
  of that command and no other, and ends with the material and the flush. The number of
  calls of \<open>renderMeshImmediately\<close> is the number of commands.
\<close>

theorem render_flushes_once_per_command:
  assumes "render_draw_data data ctx s = Inr s'"
  shows "batches (filter is_tess_call (drop (length (host s)) (host s'))) =
           map (\<lambda>(cmd_list, cmd).
                  Tess_begin TriangleList 0 # cmd_geometry (getGuiScale ctx) cmd_list cmd @
                  [CreateMaterial material_name,
                   RenderMeshImmediately material_name (texturePtr s')])
             (all_commands data) \<and>
         length (filter is_flush (drop (length (host s)) (host s'))) =
           length (all_commands data)"
proof -
  let ?calls = "data_calls (getGuiScale ctx) (texturePtr s') data"
  have t: "filter is_tess_call (drop (length (host s)) (host s')) = ?calls"
    unfolding new_calls [OF assms] by simp
  have f: "filter is_flush (drop (length (host s)) (host s')) = filter is_flush ?calls"
    unfolding new_calls [OF assms] by simp
  have "batches ?calls =
        map (\<lambda>(cmd_list, cmd). cmd_calls (getGuiScale ctx) (texturePtr s') cmd_list cmd)
          (all_commands data)"
    by (rule batches_of_data)
  then show ?thesis
    unfolding t f cmd_calls_def by (simp add: flush_count_of_data)
qed

theorem render_flushes_once_per_command_witness:
  "render_draw_data paint_data scenario_ctx (scenario_state False) =
     Inr ((scenario_state False)\<lparr>host := paint_calls\<rparr>) \<and>
   batches (filter is_tess_call paint_calls) =
     [[Tess_begin TriangleList 0,
       Tess_color 0xFF00FF00, Tess_vertexUV 3 4 0 1 0,
       Tess_color 0xFF0000FF, Tess_vertexUV 1 2 0 0 0,
       Tess_color 0xFFFF0000, Tess_vertexUV 5 6 0 0 1,
       CreateMaterial material_name, RenderMeshImmediately material_name 5],
      [Tess_begin TriangleList 0,
       CreateMaterial material_name, RenderMeshImmediately material_name 5],
      [Tess_begin TriangleList 0,
       Tess_color 0xFFFF0000, Tess_vertexUV 5 6 0 0 1,
       Tess_color 0xFF00FF00, Tess_vertexUV 3 4 0 1 0,
       Tess_color 0xFF0000FF, Tess_vertexUV 1 2 0 0 0,
       CreateMaterial material_name, RenderMeshImmediately material_name 5]] \<and>
   length (filter is_flush paint_calls) = 3 \<and>
   length (all_commands paint_data) = 3"
proof -
  let ?s = "scenario_state False"
  let ?s' = "?s\<lparr>host := paint_calls\<rparr>"
  note inst = render_flushes_once_per_command [OF paint_render]
  have h: "drop (length (host ?s)) (host ?s') = paint_calls"
    by (simp add: scenario_state_def)
  have cmds: "all_commands paint_data =
      [(paint_list, \<lparr>ElemCount = 3\<rparr>), (paint_list, \<lparr>ElemCount = 0\<rparr>),
       (scenario_list, \<lparr>ElemCount = 3\<rparr>)]"
    by (simp add: all_commands_def visited_def paint_data_def paint_list_def scenario_list_def)
  have g1: "cmd_geometry (2 :: real) paint_list \<lparr>ElemCount = 3\<rparr> =
      [Tess_color 0xFF00FF00, Tess_vertexUV 3 4 0 1 0,
       Tess_color 0xFF0000FF, Tess_vertexUV 1 2 0 0 0,
       Tess_color 0xFFFF0000, Tess_vertexUV 5 6 0 0 1 :: (real, nat) host_call]"
    by (simp add: cmd_geometry_def tri_count_def tri_calls_def read_triplet_def
        emit_vertex_def paint_list_def scenario_defs)
  have g2: "cmd_geometry (2 :: real) paint_list \<lparr>ElemCount = 0\<rparr> =
      ([] :: (real, nat) host_call list)"
    by (simp add: cmd_geometry_def tri_count_def)
  have g3: "cmd_geometry (2 :: real) scenario_list \<lparr>ElemCount = 3\<rparr> =
      [Tess_color 0xFFFF0000, Tess_vertexUV 5 6 0 0 1,
       Tess_color 0xFF00FF00, Tess_vertexUV 3 4 0 1 0,
       Tess_color 0xFF0000FF, Tess_vertexUV 1 2 0 0 0 :: (real, nat) host_call]"
    by (simp add: cmd_geometry_def tri_count_def tri_calls_def read_triplet_def
        emit_vertex_def scenario_defs)
  have tex: "texturePtr ?s' = 5" and sc: "getGuiScale scenario_ctx = 2"
    by (simp_all add: scenario_state_def scenario_ctx_def)
  show ?thesis
    using inst paint_render unfolding h cmds tex sc by (simp add: g1 g2 g3)
qed

text \<open>
  Claim C8, as stated, fails: the guard at the head of \<open>render_draw_data\<close> does not look at
  the draw data. With the invalidation flag set and no list at all, the submit runs
  \<open>load_fonts\<close>, which reads the atlas, uploads the texture and fetches its handle.
\<close>

theorem empty_data_still_loads_font:
  "CmdListsCount empty_data = 0 \<and> CmdLists empty_data = [] \<and>
   render_draw_data empty_data scenario_ctx (scenario_state True) =
     Inr ((scenario_state False)\<lparr>texturePtr := 7, io_Fonts_TexID := AddrOf_texturePtr, host :=
       [GetTexDataAsRGBA32, UploadTexture font_resource (font_image scenario_atlas),
        GetTexture font_resource False]\<rparr>) \<and>
   filter is_texture_access
     [GetTexDataAsRGBA32, UploadTexture font_resource (font_image scenario_atlas),
      GetTexture font_resource False :: (real, nat) host_call] =
     [GetTexDataAsRGBA32, UploadTexture font_resource (font_image scenario_atlas),
      GetTexture font_resource False]"
  by (simp add: render_draw_data_def list_loop.simps Let_def load_fonts_def empty_data_def
      scenario_state_def scenario_ctx_def)

text \<open>
  Claim C8, amended. For draw data with zero lists \<open>render_draw_data\<close> returns and opens no
  tessellator batch. It touches no texture when the invalidation flag is clear, and the
  state is then unchanged; when the flag is set it makes the three calls of \<open>load_fonts\<close>
  and no other.
\<close>

theorem render_of_no_lists:
  assumes "CmdListsCount data = 0"
  shows "render_draw_data data ctx s = Inr (if textures_unloaded s then load_fonts ctx s else s) \<and>
         host (if textures_unloaded s then load_fonts ctx s else s) =
           host s @ (if textures_unloaded s
                     then [GetTexDataAsRGBA32,
                           UploadTexture font_resource (font_image (io_Fonts s)),
                           GetTexture font_resource False]
                     else []) \<and>
         filter is_begin
           (drop (length (host s)) (host (if textures_unloaded s then load_fonts ctx s else s))) = []"
  using assms
  by (simp add: render_draw_data_def list_loop.simps Let_def load_fonts_def)

theorem render_of_no_lists_witness:
  "CmdListsCount empty_data = 0 \<and>
   render_draw_data empty_data scenario_ctx (scenario_state False) = Inr (scenario_state False) \<and>
   host (scenario_state False) = []"
proof -
  have z: "CmdListsCount empty_data = 0" by (simp add: empty_data_def)
  have "\<not> textures_unloaded (scenario_state False)" by (simp add: scenario_state_def)
  then show ?thesis
    using render_of_no_lists [OF z, of scenario_ctx "scenario_state False"] z
    by (simp add: scenario_state_def)
qed

text \<open>
  Claim C9. \<open>new_frame\<close> stores the screen size of the render context's GUI data in
  \<open>io.DisplaySize\<close>, both components, and changes nothing else. It is a total function of
  the context and the state: there is no failure path.
\<close>

theorem new_frame_writes_display_size:
  "vec2_x (io_DisplaySize (new_frame ctx s)) = vec2_x (getScreenSize ctx) \<and>
   vec2_y (io_DisplaySize (new_frame ctx s)) = vec2_y (getScreenSize ctx) \<and>
   new_frame ctx s = s\<lparr>io_DisplaySize := getScreenSize ctx\<rparr>"
  by (simp add: new_frame_def Let_def)

text \<open>
  Claim C10. The \<open>vec3\<close> overload of \<open>draw_filled_rect\<close> appends the rectangle with alpha
  \<open>1.0f\<close> and the default flags of the \<open>vec4\<close> overload; the \<open>flags\<close> it was given do not
  reach the draw list, so any two values of \<open>flags\<close> give the same result.
\<close>

theorem draw_filled_rect3_discards_flags:
  "draw_filled_rect3 im_col32 default_flags p sz color radius flags s =
     draw_filled_rect4 im_col32 p sz (Vec4 (vec3_x color) (vec3_y color) (vec3_z color) 1)
       radius default_flags s \<and>
   draw_filled_rect3 im_col32 default_flags p sz color radius flags s =
     draw_filled_rect3 im_col32 default_flags p sz color radius flags' s \<and>
   background (draw_filled_rect3 im_col32 default_flags p sz color radius flags s) =
     background s @
       [AddRectFilled (Vec2 (vec2_x p) (vec2_y p))
          (Vec2 (vec2_x p + vec2_x sz) (vec2_y p + vec2_y sz))
          (im_col32 (vec3_x color) (vec3_y color) (vec3_z color) 1) radius default_flags]"
  by (simp add: draw_filled_rect3_def draw_filled_rect4_def)

end
